theory Spec2Isabelle
  imports Complex_Main "HOL-Library.Sublist"
begin

section \<open>Python strings\<close>

text \<open>
  The program is a single Streamlit script, \<^verbatim>\<open>app.py\<close>. Its texts are Python
  \<^verbatim>\<open>str\<close> values; they are modelled as \<^typ>\<open>string\<close>, so the model covers texts
  whose code points are below 256.
\<close>

text \<open>\<^verbatim>\<open>str.isspace\<close> on one character, for the code points below 256.\<close>

definition py_isspace :: "char \<Rightarrow> bool" where
  "py_isspace c =
     (let n = (of_char c :: nat)
      in (9 \<le> n \<and> n \<le> 13) \<or> (28 \<le> n \<and> n \<le> 32) \<or> n = 133 \<or> n = 160)"

text \<open>\<^verbatim>\<open>s.strip()\<close>: leading and trailing whitespace removed.\<close>

definition py_strip :: "string \<Rightarrow> string" where
  "py_strip s = rev (dropWhile py_isspace (rev (dropWhile py_isspace s)))"

text \<open>
  \<^verbatim>\<open>s.replace(old, new)\<close>: the occurrences of \<open>old\<close> are found from left to right and do
  not overlap. For an empty \<open>old\<close> Python puts \<open>new\<close> before every character and at the end.
\<close>

function py_replace :: "string \<Rightarrow> string \<Rightarrow> string \<Rightarrow> string" where
  "py_replace old new s =
     (if old = [] then new @ concat (map (\<lambda>c. c # new) s)
      else if s = [] then []
      else if prefix old s then new @ py_replace old new (drop (length old) s)
      else hd s # py_replace old new (tl s))"
  by pat_completeness auto
termination
  by (relation "measure (\<lambda>(old, new, s). length s)") auto

text \<open>\<^verbatim>\<open>sep.join(xs)\<close>.\<close>

fun py_join :: "string \<Rightarrow> string list \<Rightarrow> string" where
  "py_join sep [] = []"
| "py_join sep [x] = x"
| "py_join sep (x # y # ys) = x @ sep @ py_join sep (y # ys)"

text \<open>\<^verbatim>\<open>str(n)\<close> for an integer, as an f-string field renders it.\<close>

definition digit_char :: "nat \<Rightarrow> char" where
  "digit_char d = char_of (of_char (CHR ''0'') + d)"

fun py_str_nat :: "nat \<Rightarrow> string" where
  "py_str_nat n = (if n < 10 then [digit_char n] else py_str_nat (n div 10) @ [digit_char (n mod 10)])"

definition py_str_int :: "int \<Rightarrow> string" where
  "py_str_int i = (if i < 0 then CHR ''-'' # py_str_nat (nat (- i)) else py_str_nat (nat i))"

section \<open>The preferences collected by the sidebar\<close>

text \<open>
  The sidebar widgets of lines 20 to 33. The slider and the two number inputs return
  integers; the select boxes and the radio return one of their option strings; the two
  multiselects return a list of their option strings.
\<close>

record meal_preferences =
  total_meals :: int
  servings :: int
  complexity :: string
  cook_ware :: "string list"
  max_ingredients :: string
  diet_type :: string
  avoid_list :: "string list"
  cuisine :: string
  budget_target :: int

definition complexity_options :: "string list" where
  "complexity_options = [''Easy'', ''Medium'', ''Gourmet/Difficult'']"

definition cook_ware_options :: "string list" where
  "cook_ware_options =
     [''One Pot'', ''Sheet Pan'', ''Slow Cooker'', ''Air Fryer'', ''Stove Top'', ''Oven'']"

definition max_ingredients_options :: "string list" where
  "max_ingredients_options = [''Under 5'', ''Unlimited'']"

definition diet_type_options :: "string list" where
  "diet_type_options =
     [''Balanced'', ''High Protein'', ''Vegan'', ''Vegetarian'', ''Keto'', ''Paleo'']"

definition avoid_list_options :: "string list" where
  "avoid_list_options =
     [''Mushrooms'', ''Nuts'', ''Dairy'', ''Gluten'', ''Shellfish'', ''Beef'', ''Pork'']"

definition cuisine_options :: "string list" where
  "cuisine_options =
     [''No Preference'', ''Italian'', ''Mexican'', ''Asian'', ''Mediterranean'', ''American'']"

text \<open>What the widgets can return: the ranges and option lists of lines 23 to 33.\<close>

definition well_formed :: "meal_preferences \<Rightarrow> bool" where
  "well_formed p =
     (1 \<le> total_meals p \<and> total_meals p \<le> 7 \<and> 1 \<le> servings p \<and>
      List.member complexity_options (complexity p) \<and>
      list_all (List.member cook_ware_options) (cook_ware p) \<and>
      List.member max_ingredients_options (max_ingredients p) \<and>
      List.member diet_type_options (diet_type p) \<and>
      list_all (List.member avoid_list_options) (avoid_list p) \<and>
      List.member cuisine_options (cuisine p) \<and>
      10 \<le> budget_target p)"

section \<open>The prompt\<close>

text \<open>The f-string of lines 46 to 78, in three parts: the opening (lines 46 to 48), the
  constraints (lines 49 to 57, one definition for each line that has a field) and the
  output format (lines 58 to 78, where the f-string's doubled braces are single braces).\<close>

definition prompt_opening :: "meal_preferences \<Rightarrow> string" where
  "prompt_opening p =
     ''\<newline>'' @
     ''        Act as a professional chef and nutritionist. Create a meal plan for '' @
     py_str_int (total_meals p) @
     '' dinners.\<newline>'' @
     ''        \<newline>''"

definition servings_line :: "meal_preferences \<Rightarrow> string" where
  "servings_line p =
     ''        - Servings: '' @ py_str_int (servings p) @ '' people per meal.\<newline>''"

definition complexity_line :: "meal_preferences \<Rightarrow> string" where
  "complexity_line p = ''        - Complexity: '' @ complexity p @ ''\<newline>''"

definition cookware_line :: "meal_preferences \<Rightarrow> string" where
  "cookware_line p =
     ''        - Cookware allowed: '' @ py_join '', '' (cook_ware p) @ ''\<newline>''"

definition max_ingredients_line :: "meal_preferences \<Rightarrow> string" where
  "max_ingredients_line p = ''        - Max Ingredients: '' @ max_ingredients p @ ''\<newline>''"

definition diet_line :: "meal_preferences \<Rightarrow> string" where
  "diet_line p = ''        - Diet: '' @ diet_type p @ ''\<newline>''"

definition avoid_line :: "meal_preferences \<Rightarrow> string" where
  "avoid_line p = ''        - Avoid: '' @ py_join '', '' (avoid_list p) @ ''\<newline>''"

definition cuisine_line :: "meal_preferences \<Rightarrow> string" where
  "cuisine_line p = ''        - Cuisine: '' @ cuisine p @ ''\<newline>''"

definition budget_line :: "meal_preferences \<Rightarrow> string" where
  "budget_line p =
     ''        - Budget Target: Keep total ingredients under $'' @
     py_str_int (budget_target p) @
     '' (estimate generic US grocery prices).\<newline>''"

definition prompt_constraints :: "meal_preferences \<Rightarrow> string" where
  "prompt_constraints p =
     ''        Constraints:\<newline>'' @
     servings_line p @ complexity_line p @ cookware_line p @ max_ingredients_line p @
     diet_line p @ avoid_line p @ cuisine_line p @ budget_line p"

definition prompt_output_format :: string where
  \<open>prompt_output_format =
     ''        \<newline>'' @
     ''        Output Format:\<newline>'' @
     ''        Return ONLY valid JSON. Do not include markdown formatting like ```json.\<newline>'' @
     ''        Structure:\<newline>'' @
     ''        {\<newline>'' @
     ''            "meals": [\<newline>'' @
     ''                {\<newline>'' @
     ''                    "title": "Recipe Name",\<newline>'' @
     ''                    "time_minutes": 30,\<newline>'' @
     ''                    "estimated_cost": 15.00,\<newline>'' @
     ''                    "ingredients": ["item 1", "item 2"],\<newline>'' @
     ''                    "instructions": ["step 1", "step 2"]\<newline>'' @
     ''                }\<newline>'' @
     ''            ],\<newline>'' @
     ''            "shopping_list": {\<newline>'' @
     ''                "Produce": ["item", "item"],\<newline>'' @
     ''                "Pantry": ["item"],\<newline>'' @
     ''                "Protein": ["item"]\<newline>'' @
     ''            }\<newline>'' @
     ''        }\<newline>'' @
     ''        ''\<close>

definition prompt :: "meal_preferences \<Rightarrow> string" where
  "prompt p = prompt_opening p @ prompt_constraints p @ prompt_output_format"

section \<open>Python values and exceptions\<close>

text \<open>
  A Python \<^verbatim>\<open>float\<close> is a rational number, an infinity or NaN (the JSON decoder accepts
  \<^verbatim>\<open>Infinity\<close> and \<^verbatim>\<open>NaN\<close>). Which float the text of a number denotes, which
  integers convert to a float and how a sum of two floats is rounded are not fixed here:
  they are parameters of the model.
\<close>

datatype pyfloat = Fin rat | PosInf | NegInf | NaN

record float_arith =
  float_of_str :: "string \<Rightarrow> pyfloat"
  float_of_int :: "int \<Rightarrow> pyfloat option"
  float_add :: "pyfloat \<Rightarrow> pyfloat \<Rightarrow> pyfloat"

text \<open>What \<^verbatim>\<open>json.loads\<close> returns. A \<^verbatim>\<open>dict\<close> is an association list in insertion
  order, read with \<^const>\<open>map_of\<close>.\<close>

datatype pyval =
    PNone
  | PBool bool
  | PInt int
  | PFloat pyfloat
  | PStr string
  | PList "pyval list"
  | PDict "(string \<times> pyval) list"

text \<open>The exceptions the script can meet. \<open>ServiceError\<close> is whatever the call to the
  completion service raises, with its message. \<open>BeyondLatin1\<close> is no Python exception: it
  marks a reply that names, in a \<^verbatim>\<open>\u\<close> escape, a code point that \<^typ>\<open>char\<close> does not have.\<close>

datatype pyexn =
    JSONDecodeError
  | KeyError string
  | TypeError
  | AttributeError
  | OverflowError
  | ServiceError string
  | BeyondLatin1

text \<open>\<^verbatim>\<open>d[k]\<close> with a string key: a missing key of a dict raises \<^verbatim>\<open>KeyError\<close>, a list or
  a string takes no string index, and the other values take no index at all.\<close>

fun py_getitem :: "pyval \<Rightarrow> string \<Rightarrow> pyexn + pyval" where
  "py_getitem (PDict kvs) k = (case map_of kvs k of None \<Rightarrow> Inl (KeyError k) | Some v \<Rightarrow> Inr v)"
| "py_getitem _ k = Inl TypeError"

text \<open>\<^verbatim>\<open>m.get(k, default)\<close>: only a dict has the method.\<close>

fun py_get :: "pyval \<Rightarrow> string \<Rightarrow> pyval \<Rightarrow> pyexn + pyval" where
  "py_get (PDict kvs) k d = (case map_of kvs k of None \<Rightarrow> Inr d | Some v \<Rightarrow> Inr v)"
| "py_get _ k d = Inl AttributeError"

text \<open>\<^verbatim>\<open>d.items()\<close>: only a dict has the method.\<close>

fun py_items :: "pyval \<Rightarrow> pyexn + (string \<times> pyval) list" where
  "py_items (PDict kvs) = Inr kvs"
| "py_items _ = Inl AttributeError"

text \<open>What a \<^verbatim>\<open>for\<close> loop iterates over: the elements of a list, the keys of a dict, the
  characters of a string; the other values are not iterable.\<close>

fun py_iter :: "pyval \<Rightarrow> pyexn + pyval list" where
  "py_iter (PList xs) = Inr xs"
| "py_iter (PDict kvs) = Inr (map (\<lambda>kv. PStr (fst kv)) kvs)"
| "py_iter (PStr s) = Inr (map (\<lambda>c. PStr [c]) s)"
| "py_iter _ = Inl TypeError"

text \<open>A number: an \<^verbatim>\<open>int\<close> or a \<^verbatim>\<open>float\<close>. The built-in \<^verbatim>\<open>sum\<close> starts from the
  integer 0, so its accumulator is always a number.\<close>

datatype pynum = NInt int | NFloat pyfloat

text \<open>\<^verbatim>\<open>acc + v\<close> for a numeric accumulator: a \<^verbatim>\<open>bool\<close> counts as 0 or 1, an integer
  meeting a float is converted first (which raises \<^verbatim>\<open>OverflowError\<close> when it is too
  large), and a number plus anything else raises \<^verbatim>\<open>TypeError\<close>.\<close>

fun num_add :: "float_arith \<Rightarrow> pynum \<Rightarrow> pyval \<Rightarrow> pyexn + pynum" where
  "num_add ar (NInt a) (PInt b) = Inr (NInt (a + b))"
| "num_add ar (NInt a) (PBool b) = Inr (NInt (a + (if b then 1 else 0)))"
| "num_add ar (NInt a) (PFloat g) =
     (case float_of_int ar a of None \<Rightarrow> Inl OverflowError
      | Some f \<Rightarrow> Inr (NFloat (float_add ar f g)))"
| "num_add ar (NFloat f) (PInt b) =
     (case float_of_int ar b of None \<Rightarrow> Inl OverflowError
      | Some g \<Rightarrow> Inr (NFloat (float_add ar f g)))"
| "num_add ar (NFloat f) (PBool b) =
     (case float_of_int ar (if b then 1 else 0) of None \<Rightarrow> Inl OverflowError
      | Some g \<Rightarrow> Inr (NFloat (float_add ar f g)))"
| "num_add ar (NFloat f) (PFloat g) = Inr (NFloat (float_add ar f g))"
| "num_add ar _ _ = Inl TypeError"

text \<open>\<^verbatim>\<open>total > budget\<close> against an integer budget. Python compares an integer and a float
  by their exact values; NaN is greater than nothing.\<close>

fun num_gt_int :: "pynum \<Rightarrow> int \<Rightarrow> bool" where
  "num_gt_int (NInt a) b = (a > b)"
| "num_gt_int (NFloat (Fin r)) b = (r > of_int b)"
| "num_gt_int (NFloat PosInf) b = True"
| "num_gt_int (NFloat NegInf) b = False"
| "num_gt_int (NFloat NaN) b = False"

section \<open>The JSON decoder\<close>

text \<open>
  \<^verbatim>\<open>json.loads\<close> as CPython's \<^verbatim>\<open>json.decoder\<close> and \<^verbatim>\<open>json.scanner\<close> define it, for
  a \<^verbatim>\<open>str\<close> argument and the default options. A scanning function takes the text from
  its position on and returns the value with the text that follows it. The interpreter's
  limits on the nesting depth and on the number of digits of an integer are not modelled.
\<close>

type_synonym 'a scan = "pyexn + ('a \<times> string)"

text \<open>The decoder's whitespace: space, tab, line feed and carriage return.\<close>

definition json_ws :: "char \<Rightarrow> bool" where
  "json_ws c = (c = CHR '' '' \<or> c = CHR 0x09 \<or> c = CHR 0x0A \<or> c = CHR 0x0D)"

definition skip_ws :: "string \<Rightarrow> string" where
  "skip_ws s = dropWhile json_ws s"

definition code :: "char \<Rightarrow> nat" where
  "code c = of_char c"

definition is_digit :: "char \<Rightarrow> bool" where
  "is_digit c = (code (CHR ''0'') \<le> code c \<and> code c \<le> code (CHR ''9''))"

definition hex_value :: "char \<Rightarrow> nat option" where
  "hex_value c =
     (if is_digit c then Some (code c - code (CHR ''0''))
      else if code (CHR ''a'') \<le> code c \<and> code c \<le> code (CHR ''f'') then Some (code c - code (CHR ''a'') + 10)
      else if code (CHR ''A'') \<le> code c \<and> code c \<le> code (CHR ''F'') then Some (code c - code (CHR ''A'') + 10)
      else None)"

text \<open>The escapes of one character.\<close>

definition backslash :: "char \<Rightarrow> char option" where
  \<open>backslash c =
     (if c = CHR 0x22 then Some (CHR 0x22)
      else if c = CHR 0x5C then Some (CHR 0x5C)
      else if c = CHR ''/'' then Some (CHR ''/'')
      else if c = CHR ''b'' then Some (CHR 0x08)
      else if c = CHR ''f'' then Some (CHR 0x0C)
      else if c = CHR ''n'' then Some (CHR 0x0A)
      else if c = CHR ''r'' then Some (CHR 0x0D)
      else if c = CHR ''t'' then Some (CHR 0x09)
      else None)\<close>

text \<open>The four hexadecimal digits after \<^verbatim>\<open>\u\<close>.\<close>

fun decode_uXXXX :: "string \<Rightarrow> nat option" where
  "decode_uXXXX (a # b # c # d # rest) =
     (case (hex_value a, hex_value b, hex_value c, hex_value d) of
        (Some h1, Some h2, Some h3, Some h4) \<Rightarrow> Some (((h1 * 16 + h2) * 16 + h3) * 16 + h4)
      | _ \<Rightarrow> None)"
| "decode_uXXXX _ = None"

text \<open>\<^verbatim>\<open>scanstring\<close>, from the character after the opening quote: up to the closing quote,
  with the escapes decoded; a control character is refused (the decoder is strict).\<close>

fun scanstring :: "string \<Rightarrow> string scan" where
  "scanstring [] = Inl JSONDecodeError"
| "scanstring (c # cs) =
     (if c = CHR 0x22 then Inr ([], cs)
      else if c = CHR 0x5C then
        (case cs of
           [] \<Rightarrow> Inl JSONDecodeError
         | esc # cs' \<Rightarrow>
             if esc = CHR ''u'' then
               (case decode_uXXXX cs' of
                  None \<Rightarrow> Inl JSONDecodeError
                | Some uni \<Rightarrow>
                    if uni < 256 then
                      (case scanstring (drop 4 cs') of
                         Inl e \<Rightarrow> Inl e
                       | Inr (str, rest) \<Rightarrow> Inr (char_of uni # str, rest))
                    else Inl BeyondLatin1)
             else
               (case backslash esc of
                  None \<Rightarrow> Inl JSONDecodeError
                | Some ch \<Rightarrow>
                    (case scanstring cs' of
                       Inl e \<Rightarrow> Inl e
                     | Inr (str, rest) \<Rightarrow> Inr (ch # str, rest))))
      else if code c < 32 then Inl JSONDecodeError
      else (case scanstring cs of
              Inl e \<Rightarrow> Inl e
            | Inr (str, rest) \<Rightarrow> Inr (c # str, rest)))"


lemma scanstring_shorter: "scanstring s = Inr (str, rest) \<Longrightarrow> length rest < length s"
  by (induction s arbitrary: str rest rule: scanstring.induct)
     (fastforce split: if_splits list.splits option.splits sum.splits)+

definition digits_value :: "string \<Rightarrow> nat" where
  "digits_value ds = foldl (\<lambda>n d. 10 * n + (code d - code (CHR ''0''))) 0 ds"

text \<open>
  \<^verbatim>\<open>NUMBER_RE\<close>: an optional minus sign and an integer part with no leading zero, then
  optionally a fraction and optionally an exponent, each taken only when complete. With
  neither the number is an \<^verbatim>\<open>int\<close>, otherwise the matched text is given to \<^verbatim>\<open>float\<close>.
\<close>

definition match_int :: "string \<Rightarrow> (string \<times> string) option" where
  "match_int s =
     (case s of
        [] \<Rightarrow> None
      | d # r \<Rightarrow>
          if d = CHR ''0'' then Some ([d], r)
          else if is_digit d then Some (d # takeWhile is_digit r, dropWhile is_digit r)
          else None)"

definition match_frac :: "string \<Rightarrow> string \<times> string" where
  "match_frac s =
     (case s of
        [] \<Rightarrow> ([], s)
      | c # r \<Rightarrow>
          if c = CHR ''.'' \<and> takeWhile is_digit r \<noteq> []
          then (c # takeWhile is_digit r, dropWhile is_digit r)
          else ([], s))"

definition match_sign :: "string \<Rightarrow> string \<times> string" where
  "match_sign s =
     (case s of
        [] \<Rightarrow> ([], s)
      | c # r \<Rightarrow> if c = CHR ''-'' \<or> c = CHR ''+'' then ([c], r) else ([], s))"

definition match_exp :: "string \<Rightarrow> string \<times> string" where
  "match_exp s =
     (case s of
        [] \<Rightarrow> ([], s)
      | c # r \<Rightarrow>
          if (c = CHR ''e'' \<or> c = CHR ''E'') \<and> takeWhile is_digit (snd (match_sign r)) \<noteq> []
          then (c # fst (match_sign r) @ takeWhile is_digit (snd (match_sign r)),
                dropWhile is_digit (snd (match_sign r)))
          else ([], s))"

definition match_number :: "(string \<Rightarrow> pyfloat) \<Rightarrow> string \<Rightarrow> (pyval \<times> string) option" where
  "match_number parse_float s =
     (let minus = (case s of [] \<Rightarrow> [] | c # r \<Rightarrow> if c = CHR ''-'' then [c] else [])
      in case match_int (drop (length minus) s) of
           None \<Rightarrow> None
         | Some (ds, r1) \<Rightarrow>
             (let (frac, r2) = match_frac r1; (ex, r3) = match_exp r2
              in if frac = [] \<and> ex = []
                 then Some (PInt (if minus = [] then int (digits_value ds) else - int (digits_value ds)), r3)
                 else Some (PFloat (parse_float (minus @ ds @ frac @ ex)), r3)))"

text \<open>\<^verbatim>\<open>dict(pairs)\<close>, one pair at a time: a key met again keeps its place and takes the new
  value.\<close>

fun dict_set :: "(string \<times> pyval) list \<Rightarrow> string \<Rightarrow> pyval \<Rightarrow> (string \<times> pyval) list" where
  "dict_set [] k v = [(k, v)]"
| "dict_set (p # ps) k v = (if fst p = k then (k, v) # ps else p # dict_set ps k v)"

text \<open>Skipping whitespace never lengthens the text.\<close>

lemma skip_ws_le: "length (skip_ws s) \<le> length s"
  by (simp add: skip_ws_def length_dropWhile_le)

lemma skip_ws_Cons: "skip_ws s = c # r \<Longrightarrow> length (skip_ws r) < length s"
  using skip_ws_le [of s] skip_ws_le [of r] by simp

lemma skip_ws_after: "length y < n \<Longrightarrow> skip_ws y = c # r \<Longrightarrow> length (skip_ws r) < n"
  using skip_ws_Cons [of y c r] by simp

text \<open>\<^verbatim>\<open>scan_once\<close>, \<^verbatim>\<open>JSONArray\<close> and \<^verbatim>\<open>JSONObject\<close>. The array and the object are entered
  at their first value and first key, after the empty cases; \<open>acc\<close> holds what has been read.
  A value is followed only when it has consumed text, as every value does.\<close>

function scan_once :: "(string \<Rightarrow> pyfloat) \<Rightarrow> string \<Rightarrow> pyval scan"
  and json_array :: "(string \<Rightarrow> pyfloat) \<Rightarrow> string \<Rightarrow> pyval list \<Rightarrow> pyval scan"
  and json_object :: "(string \<Rightarrow> pyfloat) \<Rightarrow> string \<Rightarrow> (string \<times> pyval) list \<Rightarrow> pyval scan"
where
  "scan_once pf s =
     (case s of
        [] \<Rightarrow> Inl JSONDecodeError
      | c # cs \<Rightarrow>
          if c = CHR 0x22 then
            (case scanstring cs of Inl e \<Rightarrow> Inl e | Inr (str, rest) \<Rightarrow> Inr (PStr str, rest))
          else if c = CHR ''{'' then
            (case skip_ws cs of
               [] \<Rightarrow> Inl JSONDecodeError
             | d # r \<Rightarrow> if d = CHR ''}'' then Inr (PDict [], r) else json_object pf (skip_ws cs) [])
          else if c = CHR ''['' then
            (case skip_ws cs of
               [] \<Rightarrow> Inl JSONDecodeError
             | d # r \<Rightarrow> if d = CHR '']'' then Inr (PList [], r) else json_array pf (skip_ws cs) [])
          else if prefix ''null'' s then Inr (PNone, drop 4 s)
          else if prefix ''true'' s then Inr (PBool True, drop 4 s)
          else if prefix ''false'' s then Inr (PBool False, drop 5 s)
          else
            (case match_number pf s of
               Some r \<Rightarrow> Inr r
             | None \<Rightarrow>
                 if prefix ''NaN'' s then Inr (PFloat NaN, drop 3 s)
                 else if prefix ''Infinity'' s then Inr (PFloat PosInf, drop 8 s)
                 else if prefix ''-Infinity'' s then Inr (PFloat NegInf, drop 9 s)
                 else Inl JSONDecodeError))"
| "json_array pf s acc =
     (case scan_once pf s of
        Inl e \<Rightarrow> Inl e
      | Inr (v, rest) \<Rightarrow>
          if length rest < length s then
            (case skip_ws rest of
               [] \<Rightarrow> Inl JSONDecodeError
             | d # r \<Rightarrow>
                 if d = CHR '']'' then Inr (PList (acc @ [v]), r)
                 else if d = CHR '','' then json_array pf (skip_ws r) (acc @ [v])
                 else Inl JSONDecodeError)
          else Inl JSONDecodeError)"
| "json_object pf s acc =
     (case s of
        [] \<Rightarrow> Inl JSONDecodeError
      | q # cs \<Rightarrow>
          if q \<noteq> CHR 0x22 then Inl JSONDecodeError
          else
            (case scanstring cs of
               Inl e \<Rightarrow> Inl e
             | Inr (key, rest) \<Rightarrow>
                 (case skip_ws rest of
                    [] \<Rightarrow> Inl JSONDecodeError
                  | c # r \<Rightarrow>
                      if c \<noteq> CHR '':'' then Inl JSONDecodeError
                      else
                        (case scan_once pf (skip_ws r) of
                           Inl e \<Rightarrow> Inl e
                         | Inr (v, rest') \<Rightarrow>
                             if length rest' < length (skip_ws r) then
                               (case skip_ws rest' of
                                  [] \<Rightarrow> Inl JSONDecodeError
                                | d # r' \<Rightarrow>
                                    if d = CHR ''}'' then Inr (PDict (dict_set acc key v), r')
                                    else if d = CHR '','' then
                                      json_object pf (skip_ws r') (dict_set acc key v)
                                    else Inl JSONDecodeError)
                             else Inl JSONDecodeError))))"
  by pat_completeness auto

termination
proof (relation "measure (\<lambda>x. case x of
            Inl (pf, s) \<Rightarrow> 2 * length s
          | Inr (Inl (pf, s, acc)) \<Rightarrow> 2 * length s + 1
          | Inr (Inr (pf, s, acc)) \<Rightarrow> 2 * length s + 1)", goal_cases)
  case 1
  show ?case by simp
next
  case (2 pf s c cs d r)
  then show ?case using skip_ws_le [of cs] by simp
next
  case (3 pf s c cs d r)
  then show ?case using skip_ws_le [of cs] by simp
next
  case (4 pf s acc)
  show ?case by simp
next
  case (5 pf s acc b v rest d r)
  then show ?case using skip_ws_after [of rest "length s" d r] by simp
next
  case (6 pf s acc q cs b key rest c r)
  then show ?case
    using scanstring_shorter [of cs key rest] skip_ws_after [of rest "length cs" c r] by simp
next
  case (7 pf s acc q cs b key rest c r b' v rest' d r')
  then show ?case
    using scanstring_shorter [of cs key rest] skip_ws_after [of rest "length cs" c r]
      skip_ws_after [of rest' "length (skip_ws r)" d r'] by simp
qed

text \<open>\<^verbatim>\<open>JSONDecoder.decode\<close>: one value between optional whitespace, and nothing else.\<close>

definition json_loads :: "(string \<Rightarrow> pyfloat) \<Rightarrow> string \<Rightarrow> pyexn + pyval" where
  "json_loads pf s =
     (case scan_once pf (skip_ws s) of
        Inl e \<Rightarrow> Inl e
      | Inr (v, rest) \<Rightarrow> if skip_ws rest = [] then Inr v else Inl JSONDecodeError)"

section \<open>Cleaning the reply\<close>

text \<open>Line 87: \<^verbatim>\<open>response.text.replace("```json", "").replace("```", "").strip()\<close>.\<close>

definition fence :: string where
  \<open>fence = ''```''\<close>

definition fence_json :: string where
  \<open>fence_json = ''```json''\<close>

definition clean_json :: "string \<Rightarrow> string" where
  \<open>clean_json raw = py_strip (py_replace fence [] (py_replace fence_json [] raw))\<close>

section \<open>What the script shows\<close>

text \<open>
  The Streamlit calls of lines 39 to 125 are recorded, in order, as a list of events. A
  Streamlit call is taken to return normally; the f-strings that format a value of the reply
  are recorded with the value itself. The two calls to the Gemini client are events too, so
  that the trace says whether the service was called.
\<close>

datatype message =
    EnterApiKey
  | ApiKeyError pyexn
  | ErrorParsing
  | AnErrorOccurred pyexn

datatype markdown =
    IngredientsHeading
  | Bullet pyval
  | InstructionsHeading
  | Step int pyval

datatype ui_event =
    StError message
  | StWarning pynum int
  | StSuccess pynum
  | StSpinner
  | StTabs
  | StExpander pyval pyval pyval
  | StColumns
  | StImage
  | StMarkdown markdown
  | StHeader
  | StSubheader string
  | StCheckbox pyval
  | GenaiConfigure string
  | GenerateContent string

text \<open>A block of the script: the events it produced and the exception it raised, if any.\<close>

type_synonym block = "ui_event list \<times> pyexn option"

text \<open>Two blocks in sequence: the second runs only when the first raised nothing.\<close>

definition then_do :: "block \<Rightarrow> block \<Rightarrow> block" where
  "then_do a b = (case snd a of Some e \<Rightarrow> a | None \<Rightarrow> (fst a @ fst b, snd b))"

text \<open>A \<^verbatim>\<open>for\<close> loop: the body on each element in turn, stopping at the first exception.\<close>

fun for_each :: "('a \<Rightarrow> block) \<Rightarrow> 'a list \<Rightarrow> block" where
  "for_each body [] = ([], None)"
| "for_each body (x # xs) = then_do (body x) (for_each body xs)"

text \<open>A block that first computes a value which may raise.\<close>

definition with_value :: "pyexn + 'a \<Rightarrow> ('a \<Rightarrow> block) \<Rightarrow> block" where
  "with_value r k = (case r of Inl e \<Rightarrow> ([], Some e) | Inr v \<Rightarrow> k v)"

definition iterate :: "pyexn + pyval \<Rightarrow> pyexn + pyval list" where
  "iterate r = (case r of Inl e \<Rightarrow> Inl e | Inr v \<Rightarrow> py_iter v)"

section \<open>The recipes tab\<close>

text \<open>Line 94: \<^verbatim>\<open>sum(m.get('estimated_cost', 0) for m in data['meals'])\<close>. The generator is
  consumed one meal at a time: the cost of a meal is read and added before the next meal is
  looked at.\<close>

fun sum_costs :: "float_arith \<Rightarrow> pynum \<Rightarrow> pyval list \<Rightarrow> pyexn + pynum" where
  "sum_costs ar acc [] = Inr acc"
| "sum_costs ar acc (m # ms) =
     (case py_get m ''estimated_cost'' (PInt 0) of
        Inl e \<Rightarrow> Inl e
      | Inr c \<Rightarrow> (case num_add ar acc c of Inl e \<Rightarrow> Inl e | Inr acc' \<Rightarrow> sum_costs ar acc' ms))"

definition total_est_cost :: "float_arith \<Rightarrow> pyval \<Rightarrow> pyexn + pynum" where
  "total_est_cost ar data =
     (case iterate (py_getitem data ''meals'') of
        Inl e \<Rightarrow> Inl e
      | Inr ms \<Rightarrow> sum_costs ar (NInt 0) ms)"

text \<open>Lines 97 to 100: the budget check.\<close>

definition budget_check :: "pynum \<Rightarrow> int \<Rightarrow> ui_event" where
  "budget_check total_cost budget =
     (if num_gt_int total_cost budget then StWarning total_cost budget else StSuccess total_cost)"

text \<open>Lines 103 to 113: one meal. The three fields of the expander's label are read from left
  to right before anything of the meal is shown.\<close>

fun enumerate_from :: "int \<Rightarrow> 'a list \<Rightarrow> (int \<times> 'a) list" where
  "enumerate_from i [] = []"
| "enumerate_from i (x # xs) = (i, x) # enumerate_from (i + 1) xs"

definition render_meal :: "pyval \<Rightarrow> block" where
  "render_meal meal =
     with_value (py_getitem meal ''title'') (\<lambda>title.
     with_value (py_getitem meal ''time_minutes'') (\<lambda>time_minutes.
     with_value (py_getitem meal ''estimated_cost'') (\<lambda>estimated_cost.
       then_do ([StExpander title time_minutes estimated_cost, StColumns, StImage,
                 StMarkdown IngredientsHeading], None)
      (then_do (with_value (iterate (py_getitem meal ''ingredients''))
                 (for_each (\<lambda>ing. ([StMarkdown (Bullet ing)], None))))
      (then_do ([StMarkdown InstructionsHeading], None)
               (with_value (iterate (py_getitem meal ''instructions''))
                 (\<lambda>steps. for_each (\<lambda>(i, step). ([StMarkdown (Step i step)], None))
                            (enumerate_from 1 steps))))))))"

text \<open>Lines 93 to 113: the first tab.\<close>

definition recipes_tab :: "float_arith \<Rightarrow> int \<Rightarrow> pyval \<Rightarrow> block" where
  "recipes_tab ar budget data =
     with_value (total_est_cost ar data) (\<lambda>total_cost.
       then_do ([budget_check total_cost budget], None)
               (with_value (iterate (py_getitem data ''meals'')) (for_each render_meal)))"

section \<open>The shopping list tab\<close>

text \<open>Lines 115 to 120.\<close>

definition render_category :: "string \<times> pyval \<Rightarrow> block" where
  "render_category entry =
     then_do ([StSubheader (fst entry)], None)
             (with_value (py_iter (snd entry)) (for_each (\<lambda>item. ([StCheckbox item], None))))"

definition shopping_tab :: "pyval \<Rightarrow> block" where
  "shopping_tab data =
     then_do ([StHeader], None)
             (with_value (case py_getitem data ''shopping_list'' of
                            Inl e \<Rightarrow> Inl e | Inr sl \<Rightarrow> py_items sl)
                (for_each render_category))"

section \<open>Interpreting the reply and handling the click\<close>

text \<open>
  Lines 87 to 120: the body of the \<^verbatim>\<open>try\<close> after the service has replied. The decoder
  is a parameter \<open>loads\<close>, from the cleaned text to the parsed value or the exception
  raised; \<^const>\<open>json_loads\<close> is the one the script uses.
\<close>

definition display_results ::
  "(string \<Rightarrow> pyexn + pyval) \<Rightarrow> float_arith \<Rightarrow> int \<Rightarrow> string \<Rightarrow> block" where
  "display_results loads ar budget raw =
     (case loads (clean_json raw) of
        Inl e \<Rightarrow> ([], Some e)
      | Inr data \<Rightarrow>
          then_do ([StTabs], None) (then_do (recipes_tab ar budget data) (shopping_tab data)))"

text \<open>Lines 122 to 125: the two \<^verbatim>\<open>except\<close> clauses, tried in order.\<close>

datatype except_clause = ExceptJSONDecodeError | ExceptException

fun caught_by :: "pyexn \<Rightarrow> except_clause" where
  "caught_by JSONDecodeError = ExceptJSONDecodeError"
| "caught_by _ = ExceptException"

definition handle_exception :: "pyexn \<Rightarrow> ui_event" where
  "handle_exception e =
     (case caught_by e of
        ExceptJSONDecodeError \<Rightarrow> StError ErrorParsing
      | ExceptException \<Rightarrow> StError (AnErrorOccurred e))"

definition try_block :: "block \<Rightarrow> ui_event list" where
  "try_block b = (case snd b of None \<Rightarrow> fst b | Some e \<Rightarrow> fst b @ [handle_exception e])"

text \<open>
  The outside world of one click: what \<^verbatim>\<open>genai.configure\<close> raises, if anything, what the
  call to the model returns as \<^verbatim>\<open>response.text\<close> or raises, the JSON decoder and the float
  arithmetic.
\<close>

record world =
  configure :: "string \<Rightarrow> pyexn option"
  generate_content :: "string \<Rightarrow> pyexn + string"
  json_decoder :: "string \<Rightarrow> pyexn + pyval"
  arith :: float_arith

text \<open>Lines 9 to 15: \<^verbatim>\<open>init_gemini\<close>. Its result is not used by the caller.\<close>

definition init_gemini :: "world \<Rightarrow> string \<Rightarrow> ui_event list \<times> bool" where
  "init_gemini w api_key =
     (case configure w api_key of
        None \<Rightarrow> ([GenaiConfigure api_key], True)
      | Some e \<Rightarrow> ([GenaiConfigure api_key, StError (ApiKeyError e)], False))"

text \<open>Lines 39 to 125: what a click on the button does.\<close>

definition generate_meal_plan :: "world \<Rightarrow> string \<Rightarrow> meal_preferences \<Rightarrow> ui_event list" where
  "generate_meal_plan w api_key p =
     (if api_key = [] then [StError EnterApiKey]
      else fst (init_gemini w api_key) @ [StSpinner] @
           try_block
             (then_do ([GenerateContent (prompt p)], None)
                (with_value (generate_content w (prompt p))
                   (display_results (json_decoder w) (arith w) (budget_target p)))))"

text \<open>The prompts of the calls to the completion service that a trace records.\<close>

fun service_calls :: "ui_event list \<Rightarrow> string list" where
  "service_calls [] = []"
| "service_calls (GenerateContent q # es) = q # service_calls es"
| "service_calls (e # es) = service_calls es"

section \<open>An example world\<close>

text \<open>An arithmetic that does not round: the text of a number denotes its exact decimal
  value, every integer converts, and a sum is exact.\<close>

definition decimal_value :: "string \<Rightarrow> rat" where
  "decimal_value s =
     (let minus = (take 1 s = ''-'');
          s1 = (if minus then drop 1 s else s);
          ip = takeWhile is_digit s1;
          (frac, r2) = match_frac (dropWhile is_digit s1);
          fp = drop 1 frac;
          (sg, r3) = match_sign (drop 1 r2);
          ex = int (digits_value (takeWhile is_digit r3));
          e = (if sg = ''-'' then - ex else ex) - int (length fp);
          m = (of_nat (digits_value (ip @ fp)) :: rat);
          v = (if 0 \<le> e then m * 10 ^ nat e else m / 10 ^ nat (- e))
      in if minus then - v else v)"

fun exact_add :: "pyfloat \<Rightarrow> pyfloat \<Rightarrow> pyfloat" where
  "exact_add (Fin a) (Fin b) = Fin (a + b)"
| "exact_add NaN _ = NaN"
| "exact_add _ NaN = NaN"
| "exact_add PosInf NegInf = NaN"
| "exact_add NegInf PosInf = NaN"
| "exact_add PosInf _ = PosInf"
| "exact_add _ PosInf = PosInf"
| "exact_add NegInf _ = NegInf"
| "exact_add _ NegInf = NegInf"

definition exact_arith :: float_arith where
  "exact_arith =
     \<lparr>float_of_str = (\<lambda>s. Fin (decimal_value s)),
      float_of_int = (\<lambda>i. Some (Fin (of_int i))),
      float_add = exact_add\<rparr>"

text \<open>A world where the client accepts the key and the service answers every prompt with
  the given reply.\<close>

definition example_world :: "string \<Rightarrow> world" where
  "example_world reply =
     \<lparr>configure = (\<lambda>api_key. None),
      generate_content = (\<lambda>q. Inr reply),
      json_decoder = json_loads (float_of_str exact_arith),
      arith = exact_arith\<rparr>"

section \<open>Example preferences\<close>

text \<open>The values the sidebar shows before the user changes anything.\<close>

definition default_preferences :: meal_preferences where
  "default_preferences =
     \<lparr>total_meals = 3, servings = 2, complexity = ''Easy'',
      cook_ware = [''Stove Top'', ''Oven''], max_ingredients = ''Unlimited'',
      diet_type = ''Balanced'', avoid_list = [], cuisine = ''No Preference'',
      budget_target = 50\<rparr>"

text \<open>The same with no cookware selected.\<close>

definition bare_preferences :: meal_preferences where
  "bare_preferences = default_preferences\<lparr>cook_ware := []\<rparr>"

section \<open>Example replies\<close>



section \<open>The budget check\<close>

lemma then_do_None [simp]: "then_do (evs, None) b = (evs @ fst b, snd b)"
  by (simp add: then_do_def)

lemma then_do_Some [simp]: "then_do (evs, Some e) b = (evs, Some e)"
  by (simp add: then_do_def)

lemma with_value_Inl [simp]: "with_value (Inl e) k = ([], Some e)"
  by (simp add: with_value_def)

lemma with_value_Inr [simp]: "with_value (Inr v) k = k v"
  by (simp add: with_value_def)

lemma iterate_Inl [simp]: "iterate (Inl e) = Inl e"
  by (simp add: iterate_def)

lemma iterate_Inr [simp]: "iterate (Inr v) = py_iter v"
  by (simp add: iterate_def)





text \<open>
  Claim C9. An aggregate equal to the budget, as an integer or as a float, is reported as
  within budget: the comparison of line 97 is strict.
\<close>

theorem budget_equal_is_within:
  "budget_check (NInt b) b = StSuccess (NInt b)
   \<and> budget_check (NFloat (Fin (of_int b))) b = StSuccess (NFloat (Fin (of_int b)))
   \<and> (budget_check (NInt a) b = StWarning (NInt a) b) = (b < a)"
  by (simp add: budget_check_def)

section \<open>The missing API key\<close>

text \<open>
  Claim C7. With an empty API key the click shows the error that asks for a key and does
  nothing else: the trace is that one event, so the Gemini client is neither configured nor
  called, whatever the world and the preferences are.
\<close>

theorem empty_api_key_no_call:
  "generate_meal_plan w [] p = [StError EnterApiKey]
   \<and> (\<forall>s. GenerateContent s \<notin> set (generate_meal_plan w [] p))
   \<and> (\<forall>s. GenaiConfigure s \<notin> set (generate_meal_plan w [] p))"
  by (simp add: generate_meal_plan_def)

section \<open>The prompt contains the constraints\<close>

lemma sublist_between: "ys = a @ x @ b \<Longrightarrow> sublist x ys"
  by (simp add: sublist_appendI)

lemma sublist_of_line: "sublist x l \<Longrightarrow> sublist l ys \<Longrightarrow> sublist x ys"
  by (rule sublist_order.order_trans)





lemma cookware_line_in_prompt: "sublist (cookware_line p) (prompt p)"
  by (rule sublist_between
        [where a = "prompt_opening p @ ''        Constraints:\<newline>'' @ servings_line p @ complexity_line p"
           and b = "max_ingredients_line p @ diet_line p @ avoid_line p @ cuisine_line p @ budget_line p @ prompt_output_format"])
     (simp add: prompt_def prompt_constraints_def)






lemma avoid_line_in_prompt: "sublist (avoid_line p) (prompt p)"
  by (rule sublist_between
        [where a = "prompt_opening p @ ''        Constraints:\<newline>'' @ servings_line p @ complexity_line p @ cookware_line p @ max_ingredients_line p @ diet_line p"
           and b = "cuisine_line p @ budget_line p @ prompt_output_format"])
     (simp add: prompt_def prompt_constraints_def)









section \<open>The calls to the completion service\<close>

lemma service_calls_append [simp]: "service_calls (a @ b) = service_calls a @ service_calls b"
  by (induction a rule: service_calls.induct) simp_all











lemma try_block_after_events: "try_block (then_do (evs, None) b) = evs @ try_block b"
  by (cases "snd b") (simp_all add: try_block_def)

lemma call_is_reached:
  "api_key \<noteq> [] \<Longrightarrow>
   \<exists>evs. generate_meal_plan w api_key p =
            fst (init_gemini w api_key) @ [StSpinner, GenerateContent (prompt p)] @ evs"
  by (simp add: generate_meal_plan_def try_block_after_events del: then_do_None)



lemma prompt_cookware_empty:
  "cook_ware p = [] \<Longrightarrow> sublist ''- Cookware allowed: \<newline>'' (prompt p)"
  by (rule sublist_of_line [OF _ cookware_line_in_prompt])
     (rule sublist_between [where a = "''        ''" and b = "[]"], simp add: cookware_line_def)

lemma prompt_avoid_empty:
  "avoid_list p = [] \<Longrightarrow> sublist ''- Avoid: \<newline>'' (prompt p)"
  by (rule sublist_of_line [OF _ avoid_line_in_prompt])
     (rule sublist_between [where a = "''        ''" and b = "[]"], simp add: avoid_line_def)

text \<open>
  Claim C8. Building the prompt raises nothing: a click with a key always reaches the call
  to the service, with the prompt built, whatever the preferences are. With no cookware
  selected the cookware line ends right after its label, and so does the avoid line with
  nothing to avoid.
\<close>

theorem prompt_never_fails:
  "(api_key \<noteq> [] \<longrightarrow>
      (\<exists>evs. generate_meal_plan w api_key p =
              fst (init_gemini w api_key) @ [StSpinner, GenerateContent (prompt p)] @ evs))
   \<and> (cook_ware p = [] \<longrightarrow> sublist ''- Cookware allowed: \<newline>'' (prompt p))
   \<and> (avoid_list p = [] \<longrightarrow> sublist ''- Avoid: \<newline>'' (prompt p))"
  by (intro conjI impI call_is_reached prompt_cookware_empty prompt_avoid_empty)

theorem prompt_never_fails_witness:
  "''key'' \<noteq> [] \<and> cook_ware bare_preferences = [] \<and> avoid_list bare_preferences = []
   \<and> well_formed bare_preferences
   \<and> (\<exists>evs. generate_meal_plan (example_world ''{}'') ''key'' bare_preferences =
              fst (init_gemini (example_world ''{}'') ''key'') @
              [StSpinner, GenerateContent (prompt bare_preferences)] @ evs)
   \<and> sublist ''- Cookware allowed: \<newline>'' (prompt bare_preferences)
   \<and> sublist ''- Avoid: \<newline>'' (prompt bare_preferences)"
  using prompt_never_fails [of "''key''" "example_world ''{}''" bare_preferences]
  by (simp add: bare_preferences_def default_preferences_def well_formed_def
        complexity_options_def cook_ware_options_def max_ingredients_options_def
        diet_type_options_def avoid_list_options_def cuisine_options_def)

end
